theory Spec2Isabelle
  imports Complex_Main
begin

section \<open>prune.py: the pruning entry point of the fake-image detector\<close>

text \<open>
  The development follows \<^verbatim>\<open>src/prune.py\<close> from top to bottom: the module-level
  statements, the function \<^verbatim>\<open>main\<close>, and the block under
  \<^verbatim>\<open>if __name__ == "__main__"\<close>. Python exceptions are values of the type
  \<open>error\<close>; a function that can raise returns \<open>error + 'a\<close>. Calls into
  torch, the dataset and the other modules of the repository are recorded, in order, as a
  list of events. Python floats that only carry configuration values (ratio, learning
  rate, pruning amounts) are rational numbers, so they are finite: the only float
  arithmetic of the file is \<^verbatim>\<open>ratio/100\<close>, \<^verbatim>\<open>(0.0 + 3.0) / 2\<close> and
  \<^verbatim>\<open>(30 + 100) / 2\<close>.

  The checks that torch and numpy make on the values the command line hands them are
  part of the model, since they decide which exception a configuration ends with. The
  surroundings are those of a working launch: the device named by the local rank exists,
  the process group can be joined, the dataset directories can be read. Two parts of the
  surroundings are modelled because the program's behaviour is stated in their terms: the
  environment variable LOCAL_RANK and the checkpoint file.
\<close>

subsection \<open>Exceptions\<close>

datatype error =
    KeyError string
  | NameError string
  | ValueError string
  | SystemExit int
  | FileNotFoundError string
  | RuntimeError string
  | OverflowError string
  | ZeroDivisionError string

subsection \<open>The parsed command line\<close>

text \<open>The namespace that \<^verbatim>\<open>parser.parse_args()\<close> returns, one field per option.\<close>

record args =
  local_rank :: int
  num_epochs :: int
  model_name :: string
  band :: string
  pretrained :: bool
  smallset :: bool
  mask_type :: string
  batch_size :: int
  ratio :: int
  lr :: rat
  pruning_ft :: bool
  pruning_test :: bool
  global_prune :: bool
  conv2d_prune_amount :: rat
  linear_prune_amount :: rat
  pruning_rounds :: int
  seed :: int
  checkpoint_path :: string

definition model_name_choices :: "string list" where
  "model_name_choices = [''RN18'', ''RN34'', ''RN50'', ''RN50_mod'', ''clip'']"

definition band_choices :: "string list" where
  "band_choices = [''all'', ''low'', ''mid'', ''high'']"

definition mask_type_choices :: "string list" where
  "mask_type_choices = [''pixel'', ''spectral'', ''patch'', ''nomask'']"

text \<open>
  \<^verbatim>\<open>parse_args\<close>: an option declared with \<^verbatim>\<open>choices=[...]\<close> whose value is
  not in the list makes argparse report a usage error and exit with status 2. The
  options declared with \<^verbatim>\<open>type=int\<close> or \<^verbatim>\<open>type=float\<close> are taken here as
  already converted.
\<close>

definition parse_args :: "args \<Rightarrow> error + args" where
  "parse_args raw =
     (if model_name raw \<in> set model_name_choices
         \<and> band raw \<in> set band_choices
         \<and> mask_type raw \<in> set mask_type_choices
      then Inr raw
      else Inl (SystemExit 2))"

subsection \<open>Tensors, modules and state dictionaries\<close>

datatype layer_kind = Conv2d | Linear | Other

record tensor =
  shape :: "nat list"
  data :: "rat list"

type_synonym state_dict = "(string \<times> tensor) list"

text \<open>What \<^verbatim>\<open>torch.load\<close> returns: a dictionary from entry names to state dictionaries.\<close>

type_synonym checkpoint = "string \<rightharpoonup> state_dict"

record module =
  mname :: string
  mkind :: layer_kind
  weight :: tensor
  bias :: "tensor option"

text \<open>
  A network is its feature modules and its classification head, the attribute
  \<^verbatim>\<open>fc\<close> that all three backbones of this program have.
\<close>

record net =
  features :: "module list"
  fc :: module

definition module_state :: "string \<Rightarrow> module \<Rightarrow> state_dict" where
  "module_state pre m =
     (pre @ ''weight'', weight m) #
     (case bias m of None \<Rightarrow> [] | Some b \<Rightarrow> [(pre @ ''bias'', b)])"

definition net_state :: "net \<Rightarrow> state_dict" where
  "net_state n =
     concat (map (\<lambda>m. module_state (mname m @ ''.'') m) (features n)) @
     module_state ''fc.'' (fc n)"

text \<open>
  \<^verbatim>\<open>load_state_dict\<close> with its default \<^verbatim>\<open>strict=True\<close>: the keys of the
  loaded dictionary must be exactly the module's own keys and every tensor must have the
  shape of the parameter it replaces; otherwise torch raises a RuntimeError and the spec
  calls it a load error.
\<close>

definition shapes_match :: "state_dict \<Rightarrow> state_dict \<Rightarrow> bool" where
  "shapes_match own sd \<longleftrightarrow>
     list_all (\<lambda>(k, t). case map_of sd k of None \<Rightarrow> False | Some t' \<Rightarrow> shape t' = shape t) own
     \<and> list_all (\<lambda>(k, t'). k \<in> set (map fst own)) sd"

definition fetch :: "state_dict \<Rightarrow> string \<Rightarrow> tensor \<Rightarrow> tensor" where
  "fetch sd k old = (case map_of sd k of None \<Rightarrow> old | Some t \<Rightarrow> t)"

definition module_reload :: "string \<Rightarrow> state_dict \<Rightarrow> module \<Rightarrow> module" where
  "module_reload pre sd m =
     m\<lparr>weight := fetch sd (pre @ ''weight'') (weight m),
       bias := map_option (fetch sd (pre @ ''bias'')) (bias m)\<rparr>"

text \<open>\<^verbatim>\<open>model.module.fc.load_state_dict(sd)\<close>: the head alone, keys \<^verbatim>\<open>weight\<close> and \<^verbatim>\<open>bias\<close>.\<close>

definition load_fc_state_dict :: "net \<Rightarrow> state_dict \<Rightarrow> error + net" where
  "load_fc_state_dict model sd =
     (if shapes_match (module_state [] (fc model)) sd
      then Inr (model\<lparr>fc := module_reload [] sd (fc model)\<rparr>)
      else Inl (RuntimeError ''load_state_dict''))"

text \<open>
  \<^verbatim>\<open>model.load_state_dict(sd)\<close> on the DistributedDataParallel wrapper: every
  parameter of the network, under the wrapper's prefix \<^verbatim>\<open>module.\<close>.
\<close>

definition load_state_dict :: "net \<Rightarrow> state_dict \<Rightarrow> error + net" where
  "load_state_dict model sd =
     (if shapes_match (map (\<lambda>(k, t). (''module.'' @ k, t)) (net_state model)) sd
      then Inr \<lparr>features = map (\<lambda>m. module_reload (''module.'' @ mname m @ ''.'') sd m) (features model),
                fc = module_reload ''module.fc.'' sd (fc model)\<rparr>
      else Inl (RuntimeError ''load_state_dict''))"

subsection \<open>Prunable layers\<close>

text \<open>Modelled from the spec: one member of the prunable parameter group of section 3 (utils.py
  is missing): the flat weights of a convolutional or linear layer with a keep-mask of the
  same length (True: the weight is live).\<close>

record layer =
  lkind :: layer_kind
  weights :: "rat list"
  keep :: "bool list"

subsection \<open>The world outside the file\<close>

text \<open>
  What the program reads from its surroundings: the process environment, the checkpoint
  files, the networks that the constructors of \<^verbatim>\<open>networks.*\<close> return, the random
  initial values of a fresh \<^verbatim>\<open>nn.Linear\<close>, and the weight values that a run of
  training leaves behind (round, prunable layers before training, layer index, position).
\<close>

record world =
  environ :: "string \<rightharpoonup> string"
  files :: "string \<rightharpoonup> checkpoint"
  resnet50 :: "bool \<Rightarrow> net"
  resnet50_mod :: "bool \<Rightarrow> net"
  clip_model :: net
  linear_init :: "nat \<Rightarrow> rat list"
  trained :: "nat \<Rightarrow> layer list \<Rightarrow> nat \<Rightarrow> nat \<Rightarrow> rat"

subsection \<open>The pruning engine and its orchestrator\<close>

text \<open>
  \<^verbatim>\<open>iterative_pruning_finetuning\<close> comes from \<^verbatim>\<open>from utils import *\<close>; the file
  \<^verbatim>\<open>utils.py\<close> is not among the sources, only the call at the end of \<^verbatim>\<open>main\<close>
  is. The definitions of this subsection follow sections 3, 4.4 and 4.7 of the spec.
\<close>

text \<open>Modelled from the spec: the prunable parameter group of a network (utils.py is missing):
  the weight tensors of its convolutional and linear layers, each with a keep-mask, which
  starts with every weight kept.\<close>

definition prunable :: "net \<Rightarrow> layer list" where
  "prunable n =
     map (\<lambda>m. \<lparr>lkind = mkind m, weights = data (weight m),
                keep = replicate (length (data (weight m))) True\<rparr>)
       (filter (\<lambda>m. mkind m \<noteq> Other) (features n @ [fc n]))"

text \<open>Modelled from the spec: the weights of a layer that pruning can still remove (utils.py
  is missing): the positions whose keep-mask entry is set, in flat order, each with its
  absolute magnitude.\<close>

definition candidates :: "layer \<Rightarrow> (nat \<times> rat) list" where
  "candidates l =
     map (\<lambda>(i, w, k). (i, \<bar>w\<bar>))
       (filter (\<lambda>(i, w, k). k) (zip [0..<length (keep l)] (zip (weights l) (keep l))))"

text \<open>Modelled from the spec: magnitude ranking (utils.py is missing): lowest magnitude first,
  equal magnitudes in their given order (the sort is stable), the first \<open>k\<close> are removed.\<close>

definition lowest :: "nat \<Rightarrow> ('a \<times> rat) list \<Rightarrow> 'a list" where
  "lowest k cs = map fst (take k (sort_key snd cs))"

text \<open>Modelled from the spec: the number of weights that a fraction \<open>amount\<close> of \<open>n\<close>
  remaining weights stands for (utils.py is missing). The spec does not say how a fractional
  count is rounded; it is rounded down here.\<close>

definition prune_count :: "rat \<Rightarrow> nat \<Rightarrow> nat" where
  "prune_count amount n = nat \<lfloor>amount * of_nat n\<rfloor>"

text \<open>Modelled from the spec: the update of a keep-mask (utils.py is missing): the entries at
  the removed positions are cleared, every other entry stays as it is.\<close>

definition clear_positions :: "nat list \<Rightarrow> bool list \<Rightarrow> bool list" where
  "clear_positions victims ks = map (\<lambda>(i, k). k \<and> i \<notin> set victims) (enumerate 0 ks)"

text \<open>Modelled from the spec: local scope (utils.py is missing): one layer ranked on its own.\<close>

definition prune_layer :: "rat \<Rightarrow> layer \<Rightarrow> layer" where
  "prune_layer amount l =
     (let cs = candidates l
      in l\<lparr>keep := clear_positions (lowest (prune_count amount (length cs)) cs) (keep l)\<rparr>)"

text \<open>Modelled from the spec: the pool of global scope (utils.py is missing): the remaining
  weights of all layers of one kind, ordered by layer index and flat index.\<close>

definition pooled :: "layer_kind \<Rightarrow> layer list \<Rightarrow> ((nat \<times> nat) \<times> rat) list" where
  "pooled K m =
     concat (map (\<lambda>(j, l). if lkind l = K then map (\<lambda>(i, a). ((j, i), a)) (candidates l) else [])
               (enumerate 0 m))"

text \<open>Modelled from the spec: global scope (utils.py is missing): all layers of one kind ranked
  together.\<close>

definition prune_global :: "layer_kind \<Rightarrow> rat \<Rightarrow> layer list \<Rightarrow> layer list" where
  "prune_global K amount m =
     (let cs = pooled K m;
          victims = lowest (prune_count amount (length cs)) cs
      in map (\<lambda>(j, l).
                if lkind l = K
                then l\<lparr>keep := clear_positions (map snd (filter (\<lambda>(j', i). j' = j) victims)) (keep l)\<rparr>
                else l)
           (enumerate 0 m))"

text \<open>Modelled from the spec: \<^verbatim>\<open>prune_round(model, conv_amount, linear_amount, global_scope)\<close>
  of section 4.4 (utils.py is missing).\<close>

definition prune_round :: "layer list \<Rightarrow> rat \<Rightarrow> rat \<Rightarrow> bool \<Rightarrow> layer list" where
  "prune_round m conv_amount linear_amount global_scope =
     (if global_scope
      then prune_global Linear linear_amount (prune_global Conv2d conv_amount m)
      else map (\<lambda>l. case lkind l of
                       Conv2d \<Rightarrow> prune_layer conv_amount l
                     | Linear \<Rightarrow> prune_layer linear_amount l
                     | Other \<Rightarrow> l) m)"

text \<open>Modelled from the spec: the fine-tune loop of section 4.6 as far as the weights go
  (utils.py is missing): training replaces the stored weight values, here by whatever the
  world says training produced, and does not touch the keep-masks, which only the pruning
  engine changes.\<close>

definition fine_tune :: "(nat \<Rightarrow> nat \<Rightarrow> rat) \<Rightarrow> layer list \<Rightarrow> layer list" where
  "fine_tune new_weight m =
     map (\<lambda>(j, l). l\<lparr>weights := map (new_weight j) [0..<length (weights l)]\<rparr>) (enumerate 0 m)"

text \<open>Modelled from the spec: the weights the network computes with (utils.py is missing): a
  weight whose keep-mask entry is cleared counts as zero.\<close>

definition effective :: "layer \<Rightarrow> rat list" where
  "effective l = map (\<lambda>(w, k). if k then w else 0) (zip (weights l) (keep l))"

text \<open>Modelled from the spec: the state after \<open>r\<close> rounds of the orchestrator of section 4.7
  (utils.py is missing): each round prunes, then fine-tunes when \<^verbatim>\<open>pruning_ft\<close> is set.\<close>

primrec after_rounds :: "(nat \<Rightarrow> layer list \<Rightarrow> nat \<Rightarrow> nat \<Rightarrow> rat) \<Rightarrow> args \<Rightarrow> nat \<Rightarrow> layer list \<Rightarrow> layer list" where
  "after_rounds tr a 0 m = m"
| "after_rounds tr a (Suc r) m =
     (let pruned = prune_round (after_rounds tr a r m) (conv2d_prune_amount a)
                     (linear_prune_amount a) (global_prune a)
      in if pruning_ft a then fine_tune (tr r pruned) pruned else pruned)"

text \<open>Modelled from the spec: the orchestrator of section 4.7 (utils.py is missing):
  \<^verbatim>\<open>pruning_rounds\<close> rounds, or, in the test-only mode, the model as it came.\<close>

definition iterative_pruning_finetuning ::
    "(nat \<Rightarrow> layer list \<Rightarrow> nat \<Rightarrow> nat \<Rightarrow> rat) \<Rightarrow> args \<Rightarrow> layer list \<Rightarrow> layer list" where
  "iterative_pruning_finetuning tr a m =
     (if pruning_test a then m else after_rounds tr a (nat (pruning_rounds a)) m)"

text \<open>Modelled from the spec: the zeroed weight positions of a model (utils.py is missing):
  the pairs of layer index and flat index whose keep-mask entry is cleared.\<close>

definition zeroed :: "layer list \<Rightarrow> (nat \<times> nat) list" where
  "zeroed m =
     concat (map (\<lambda>(j, l). map (\<lambda>(i, k). (j, i)) (filter (\<lambda>(i, k). \<not> k) (enumerate 0 (keep l))))
               (enumerate 0 m))"

text \<open>A notion for the proofs: the keep-mask of \<open>l'\<close> has the length of that of \<open>l\<close>
  and keeps no weight that \<open>l\<close> does not keep.\<close>

abbreviation keeps_le :: "layer \<Rightarrow> layer \<Rightarrow> bool" where
  "keeps_le l l' \<equiv> list_all2 (\<lambda>k k'. k' \<longrightarrow> k) (keep l) (keep l')"

subsection \<open>Augmentation options\<close>

record opt =
  rz_interp :: "string list"
  loadSize :: int
  blur_prob :: rat
  blur_sig :: "rat list"
  jpg_prob :: rat
  jpg_method :: "string list"
  jpg_qual :: "int list"

text \<open>Python's \<^verbatim>\<open>int(x)\<close> on a float: truncation towards zero.\<close>

definition py_int :: "rat \<Rightarrow> int" where
  "py_int x = (if 0 \<le> x then \<lfloor>x\<rfloor> else \<lceil>x\<rceil>)"

definition train_opt :: opt where
  "train_opt =
     \<lparr>rz_interp = [''bilinear''], loadSize = 256, blur_prob = 1 / 10, blur_sig = [0, 3],
      jpg_prob = 1 / 10, jpg_method = [''cv2'', ''pil''], jpg_qual = [30, 100]\<rparr>"

definition val_opt :: opt where
  "val_opt =
     \<lparr>rz_interp = [''bilinear''], loadSize = 256, blur_prob = 1 / 10, blur_sig = [(0 + 3) / 2],
      jpg_prob = 1 / 10, jpg_method = [''pil''], jpg_qual = [py_int ((30 + 100) / 2)]\<rparr>"

text \<open>
  \<^verbatim>\<open>ImageAugmentor\<close> comes from \<^verbatim>\<open>augment.py\<close>, which is not among the sources.
  What it applies to one sample is modelled from section 4.2 of the spec, with the random
  numbers of one sample made explicit.
\<close>

text \<open>Modelled from the spec: the photometric perturbations of section 4.2 (augment.py is
  missing): a resize to a size with an interpolation, a blur with a sigma, a JPEG
  re-encoding with a method and a quality.\<close>

datatype perturbation = Resize int string | Blur rat | Jpeg string int

text \<open>Modelled from the spec: the random numbers drawn for one sample (augment.py is missing):
  which interpolation and method, whether to blur and to re-encode (compared with the
  probabilities), and how far into the sigma and quality ranges.\<close>

record draws =
  u_interp :: nat
  u_blur :: rat
  u_sig :: rat
  u_jpg :: rat
  u_method :: nat
  u_qual :: rat

text \<open>Modelled from the spec: the choice of one of the configured interpolations or methods
  (augment.py is missing).\<close>

definition pick_one :: "'a list \<Rightarrow> nat \<Rightarrow> 'a option" where
  "pick_one xs u = (if xs = [] then None else Some (xs ! (u mod length xs)))"

text \<open>Modelled from the spec: a value of a configured range (augment.py is missing): the range
  runs from the first to the last element of the list, \<open>u\<close> (between 0 and 1) says how
  far into it; a list of one element is that value.\<close>

definition range_point :: "rat list \<Rightarrow> rat \<Rightarrow> rat option" where
  "range_point xs u = (if xs = [] then None else Some (hd xs + u * (last xs - hd xs)))"

text \<open>Modelled from the spec: the perturbations \<^verbatim>\<open>ImageAugmentor\<close> applies to one sample
  (augment.py is missing): a resize, a blur "with a probability and sigma range", a JPEG
  re-encoding "with a probability and quality range, using a configured method". None
  stands for an option list that is empty.\<close>

definition augment :: "opt \<Rightarrow> draws \<Rightarrow> perturbation list option" where
  "augment opt d =
     (case (pick_one (rz_interp opt) (u_interp d), range_point (blur_sig opt) (u_sig d),
            pick_one (jpg_method opt) (u_method d), range_point (map of_int (jpg_qual opt)) (u_qual d)) of
        (Some interp, Some sig, Some method, Some qual) \<Rightarrow>
          Some ([Resize (loadSize opt) interp]
                @ (if u_blur d < blur_prob opt then [Blur sig] else [])
                @ (if u_jpg d < jpg_prob opt then [Jpeg method \<lfloor>qual\<rfloor>] else []))
      | _ \<Rightarrow> None)"

subsection \<open>Mask generators\<close>

datatype mask_generator =
    FrequencyMaskGenerator rat string
  | PixelMaskGenerator rat
  | PatchMaskGenerator rat

text \<open>Lines 86 to 93 of \<^verbatim>\<open>main\<close>. The parameter \<^verbatim>\<open>mask_type\<close> defaults to
  \<^verbatim>\<open>None\<close>, so it is an optional string.\<close>

definition make_mask_generator :: "rat \<Rightarrow> string \<Rightarrow> string option \<Rightarrow> mask_generator option" where
  "make_mask_generator ratio' band' mask_type' =
     (if mask_type' = Some ''spectral'' then Some (FrequencyMaskGenerator ratio' band')
      else if mask_type' = Some ''pixel'' then Some (PixelMaskGenerator ratio')
      else if mask_type' = Some ''patch'' then Some (PatchMaskGenerator ratio')
      else None)"

text \<open>Modelled from the spec: the masking step of the transform that \<^verbatim>\<open>train_augment\<close> and
  \<^verbatim>\<open>val_augment\<close> build (utils.py is missing): a generator masks the image, no
  generator (the None variant of section 4.1) returns the image unmodified. What a
  generator does to an image is the parameter \<open>masked\<close>.\<close>

definition mask_step :: "(mask_generator \<Rightarrow> 'img \<Rightarrow> 'img) \<Rightarrow> mask_generator option \<Rightarrow> 'img \<Rightarrow> 'img" where
  "mask_step masked mask_generator img =
     (case mask_generator of None \<Rightarrow> img | Some g \<Rightarrow> masked g img)"

subsection \<open>The function main\<close>

text \<open>
  The calls \<^verbatim>\<open>main\<close> makes, in the order of the source. An event is recorded when
  the call is reached, whether or not it then raises.
\<close>

datatype printed = PStr string | PInt int | PBool bool | PFloat rat

datatype event =
    PrintConfiguration "(string \<times> printed) list"
  | SetSeed int
  | SetDevice int
  | InitProcessGroup
  | MakeMaskGenerator mask_generator
  | TrainAugment opt "mask_generator option"
  | ValAugment opt "mask_generator option"
  | TrainingData bool
  | TrainLoader int
  | ValidationData
  | ValLoader int
  | ModelToDevice int
  | WrapDistributed
  | MakeOptimizer rat
  | TorchLoad string
  | LoadHeadState
  | LoadModelState
  | IterativePruningFinetuning

text \<open>The keyword arguments of \<^verbatim>\<open>main\<close>.\<close>

record kwargs =
  kw_local_rank :: int
  kw_nhead :: int
  kw_num_layers :: int
  kw_num_epochs :: int
  kw_ratio :: rat
  kw_batch_size :: int
  kw_model_name :: string
  kw_band :: string
  kw_mask_type :: "string option"
  kw_pretrained :: bool
  kw_args :: args

text \<open>\<^verbatim>\<open>model.fc.in_features\<close>: the second dimension of the head's weight.\<close>

definition in_features :: "module \<Rightarrow> nat" where
  "in_features m = (case shape (weight m) of [out_features, i] \<Rightarrow> i | _ \<Rightarrow> 0)"

text \<open>\<^verbatim>\<open>nn.Linear(i, out)\<close>, and \<^verbatim>\<open>ChannelLinear(i, out)\<close>, which has the same
  parameters: a fresh head.\<close>

definition nn_Linear :: "world \<Rightarrow> nat \<Rightarrow> nat \<Rightarrow> module" where
  "nn_Linear w i out =
     \<lparr>mname = ''fc'', mkind = Linear,
      weight = \<lparr>shape = [out, i], data = linear_init w (out * i)\<rparr>,
      bias = Some \<lparr>shape = [out], data = linear_init w out\<rparr>\<rparr>"

definition startswith :: "string \<Rightarrow> string \<Rightarrow> bool" where
  "startswith s pre \<longleftrightarrow> take (length pre) s = pre"

text \<open>Lines 113 to 123.\<close>

definition build_model :: "world \<Rightarrow> string \<Rightarrow> bool \<Rightarrow> error + net" where
  "build_model w model_name' pretrained' =
     (if model_name' = ''RN50'' then
        (let model = resnet50 w pretrained'
         in Inr (model\<lparr>fc := nn_Linear w (in_features (fc model)) 1\<rparr>))
      else if model_name' = ''RN50_mod'' then
        (let model = resnet50_mod w pretrained'
         in Inr (model\<lparr>fc := nn_Linear w (in_features (fc model)) 1\<rparr>))
      else if startswith model_name' ''clip'' then Inr (clip_model w)
      else Inl (ValueError (''Model '' @ model_name' @ '' not recognized!'')))"

text \<open>Lines 132 to 139. The test reads \<^verbatim>\<open>args.pretrained\<close> and \<^verbatim>\<open>args.model_name\<close>,
  not the parameters of \<^verbatim>\<open>main\<close>.\<close>

definition restore :: "world \<Rightarrow> args \<Rightarrow> net \<Rightarrow> event list \<times> (error + net)" where
  "restore w a model =
     (if pretrained a = False then
        (case files w (checkpoint_path a) of
           None \<Rightarrow> ([TorchLoad (checkpoint_path a)], Inl (FileNotFoundError (checkpoint_path a)))
         | Some checkpoint \<Rightarrow>
             (case checkpoint ''model_state_dict'' of
                None \<Rightarrow> ([TorchLoad (checkpoint_path a)], Inl (KeyError ''model_state_dict''))
              | Some sd \<Rightarrow>
                  if model_name a = ''clip''
                  then ([TorchLoad (checkpoint_path a), LoadHeadState], load_fc_state_dict model sd)
                  else ([TorchLoad (checkpoint_path a), LoadModelState], load_state_dict model sd)))
      else ([], Inr model))"

text \<open>
  The checks the libraries make on values that come from the command line.
  \<^verbatim>\<open>torch.manual_seed\<close> (line 49) takes a seed from \<open>-2^63\<close> to \<open>2^64 - 1\<close> and
  raises a RuntimeError otherwise; \<^verbatim>\<open>np.random.seed\<close> (line 51) takes a seed from 0 to
  \<open>2^32 - 1\<close> and raises a ValueError otherwise; \<^verbatim>\<open>random.seed\<close> takes any integer.
\<close>

definition manual_seeds :: "int \<Rightarrow> error option" where
  "manual_seeds s =
     (if s < - (2 ^ 63) \<or> 2 ^ 64 - 1 < s then Some (RuntimeError ''Overflow when unpacking long'')
      else if s < 0 \<or> 2 ^ 32 - 1 < s then Some (ValueError ''Seed must be between 0 and 2**32 - 1'')
      else None)"

text \<open>\<^verbatim>\<open>torch.device(f'cuda:{local_rank}')\<close> (line 56): the index after the colon is a
  string of digits; the minus sign of a negative rank makes the string invalid.\<close>

definition torch_device :: "int \<Rightarrow> error option" where
  "torch_device r = (if r < 0 then Some (RuntimeError ''Invalid device string'') else None)"

text \<open>\<^verbatim>\<open>DataLoader(..., batch_size=batch_size, ...)\<close> (lines 105 and 110): the batch size
  must be positive.\<close>

definition DataLoader :: "int \<Rightarrow> error option" where
  "DataLoader b =
     (if b \<le> 0 then Some (ValueError ''batch_size should be a positive integer value'') else None)"

text \<open>\<^verbatim>\<open>torch.optim.AdamW(..., lr=args.lr, ...)\<close> (line 129): the learning rate must
  not be negative (the betas and the weight decay are the constants of the source).\<close>

definition AdamW :: "rat \<Rightarrow> error option" where
  "AdamW rate = (if rate < 0 then Some (ValueError ''Invalid learning rate'') else None)"

text \<open>Lines 48 to 58: seeding, the device, the process group. The first component is the
  list of calls reached, the second the exception that ended them, if any.\<close>

definition startup :: "kwargs \<Rightarrow> event list \<times> error option" where
  "startup kw =
     (case manual_seeds (seed (kw_args kw)) of
        Some e \<Rightarrow> ([SetSeed (seed (kw_args kw))], Some e)
      | None \<Rightarrow>
          (case torch_device (kw_local_rank kw) of
             Some e \<Rightarrow> ([SetSeed (seed (kw_args kw)), SetDevice (kw_local_rank kw)], Some e)
           | None \<Rightarrow>
               ([SetSeed (seed (kw_args kw)), SetDevice (kw_local_rank kw), InitProcessGroup],
                None)))"

text \<open>
  \<^verbatim>\<open>main\<close>. The result is the list of calls made and either the exception that ended
  the function or the value bound to \<^verbatim>\<open>pruned_model\<close> on its last line. The names
  the file uses without binding them (\<^verbatim>\<open>random\<close>, the three mask generator classes,
  \<^verbatim>\<open>train_augment\<close>, \<^verbatim>\<open>val_augment\<close>, \<^verbatim>\<open>iterative_pruning_finetuning\<close>) are
  what the star imports of \<^verbatim>\<open>mask\<close> and \<^verbatim>\<open>utils\<close> are there to provide. The
  name \<^verbatim>\<open>valueError\<close> of line 83 is not one of them: it is the builtin
  \<^verbatim>\<open>ValueError\<close>, which line 123 writes correctly, misspelt, so evaluating it raises
  a NameError.
\<close>

definition main :: "world \<Rightarrow> kwargs \<Rightarrow> event list \<times> (error + layer list)" where
  "main w kw =
     (let a = kw_args kw in
      case startup kw of
        (ev0, Some e) \<Rightarrow> (ev0, Inl e)
      | (ev0, None) \<Rightarrow>
          if kw_ratio kw > 1 \<or> kw_ratio kw < 0 then (ev0, Inl (NameError ''valueError''))
          else
            (let mask_generator = make_mask_generator (kw_ratio kw) (kw_band kw) (kw_mask_type kw);
                 ev1 = ev0
                   @ (case mask_generator of None \<Rightarrow> [] | Some g \<Rightarrow> [MakeMaskGenerator g])
                   @ [TrainAugment train_opt mask_generator, ValAugment val_opt mask_generator,
                      TrainingData (smallset a), TrainLoader (kw_batch_size kw)]
             in case DataLoader (kw_batch_size kw) of
                  Some e \<Rightarrow> (ev1, Inl e)
                | None \<Rightarrow>
                    (let ev2 = ev1 @ [ValidationData, ValLoader (kw_batch_size kw)]
                     in case build_model w (kw_model_name kw) (kw_pretrained kw) of
                          Inl e \<Rightarrow> (ev2, Inl e)
                        | Inr model \<Rightarrow>
                            (let ev3 = ev2 @ [ModelToDevice (kw_local_rank kw), WrapDistributed,
                                              MakeOptimizer (lr a)]
                             in case AdamW (lr a) of
                                  Some e \<Rightarrow> (ev3, Inl e)
                                | None \<Rightarrow>
                                    (case restore w a model of
                                       (ev4, Inl e) \<Rightarrow> (ev3 @ ev4, Inl e)
                                     | (ev4, Inr restored) \<Rightarrow>
                                         (ev3 @ ev4 @ [IterativePruningFinetuning],
                                          Inr (iterative_pruning_finetuning (trained w) a
                                                 (prunable restored))))))))"

subsection \<open>The script\<close>

text \<open>Python's \<^verbatim>\<open>str\<close> of an integer, for the f-strings.\<close>

fun str_nat :: "nat \<Rightarrow> string" where
  "str_nat n =
     (if n < 10 then [''0123456789'' ! n]
      else str_nat (n div 10) @ [''0123456789'' ! (n mod 10)])"

declare str_nat.simps [simp del]

definition str_int :: "int \<Rightarrow> string" where
  "str_int i = (if i < 0 then ''-'' @ str_nat (nat (- i)) else str_nat (nat i))"

text \<open>Lines 266 to 272: the ratio in effect, the namespace (its band overwritten when there is
  no mask) and the checkpoint folder. Lines 262 to 264 bind \<^verbatim>\<open>model_name\<close>,
  \<^verbatim>\<open>finetune\<close> and \<^verbatim>\<open>band\<close>, which nothing reads afterwards (the call of
  \<^verbatim>\<open>main\<close> passes \<^verbatim>\<open>args.model_name\<close> and \<^verbatim>\<open>args.band\<close>); they are left out.\<close>

definition effective_config :: "args \<Rightarrow> int \<times> args \<times> string" where
  "effective_config a =
     (if mask_type a \<noteq> ''nomask''
      then (ratio a, a, ''./checkpoints/mask_'' @ str_int (ratio a))
      else (0, a\<lparr>band := ''None''\<rparr>, ''./checkpoints/mask_'' @ str_int 0))"

text \<open>
  Python's \<^verbatim>\<open>/\<close> on two integers gives a float: it raises ZeroDivisionError for a
  zero divisor and OverflowError when the quotient, rounded to the nearest float, is
  beyond the largest one, that is from \<open>2^1024 - 2^970\<close> on in absolute value. Otherwise
  the result is the float nearest the quotient, for which the quotient itself stands here.
  For the division by 100 of line 296 the rounding changes no comparison with 0.0 or 1.0:
  those are floats, and rounding is monotone.
\<close>

definition true_divide :: "int \<Rightarrow> int \<Rightarrow> error + rat" where
  "true_divide x y =
     (if y = 0 then Inl (ZeroDivisionError ''division by zero'')
      else if 2 ^ 1024 - 2 ^ 970 \<le> \<bar>of_int x / of_int y :: rat\<bar>
      then Inl (OverflowError ''integer division result too large for a float'')
      else Inr (of_int x / of_int y))"

text \<open>Lines 293 to 303: the keyword arguments of the call of \<^verbatim>\<open>main\<close>, evaluated before
  the call; \<^verbatim>\<open>nhead\<close> and \<^verbatim>\<open>num_layers\<close> keep their defaults.\<close>

definition main_call :: "args \<Rightarrow> error + kwargs" where
  "main_call a0 =
     (case effective_config a0 of
        (ratio', a, ckpt_folder) \<Rightarrow>
          (case true_divide ratio' 100 of
             Inl e \<Rightarrow> Inl e
           | Inr q \<Rightarrow>
               Inr \<lparr>kw_local_rank = local_rank a, kw_nhead = 8, kw_num_layers = 6,
                    kw_num_epochs = 5, kw_ratio = q, kw_batch_size = batch_size a,
                    kw_model_name = model_name a, kw_band = band a,
                    kw_mask_type = Some (mask_type a), kw_pretrained = pretrained a,
                    kw_args = a\<rparr>))"

text \<open>Lines 276 to 291: the values the script prints, each under its label.\<close>

definition configuration_lines :: "int \<Rightarrow> args \<Rightarrow> (string \<times> printed) list" where
  "configuration_lines ratio' a =
     [(''Seed'', PInt (seed a)), (''Mask Type'', PStr (mask_type a)), (''Mask Ratio'', PInt ratio'),
      (''Mask Band'', PStr (band a)), (''Model Arch'', PStr (model_name a)),
      (''ImageNet Weights'', PBool (pretrained a))]
     @ (if pretrained a = False then [(''Checkpoint'', PStr (checkpoint_path a))] else [])
     @ [(''Global Pruning'', PBool (global_prune a)), (''Pruning-Test'', PBool (pruning_test a)),
        (''Pruning-Finetune'', PBool (pruning_ft a)), (''Pruning Ratio'', PFloat (conv2d_prune_amount a))]"

text \<open>
  The whole file run as a script: the module-level statements of lines 28 to 32 (the
  imports above them are taken to succeed), then the block under
  \<^verbatim>\<open>if __name__ == "__main__"\<close>.
\<close>

definition script :: "world \<Rightarrow> args \<Rightarrow> event list \<times> (error + layer list)" where
  "script w raw =
     (let env = (environ w)(''NCCL_BLOCKING_WAIT'' \<mapsto> ''1'', ''NCCL_DEBUG'' \<mapsto> ''WARN'')
      in case env ''LOCAL_RANK'' of
           None \<Rightarrow> ([], Inl (KeyError ''LOCAL_RANK''))
         | Some v \<Rightarrow>
             (case parse_args raw of
                Inl e \<Rightarrow> ([], Inl e)
              | Inr a0 \<Rightarrow>
                  (case effective_config a0 of
                     (ratio', a, ckpt_folder) \<Rightarrow>
                       (case main_call a0 of
                          Inl e \<Rightarrow> ([PrintConfiguration (configuration_lines ratio' a)], Inl e)
                        | Inr kw \<Rightarrow>
                            (case main (w\<lparr>environ := env\<rparr>) kw of
                               (evs, r) \<Rightarrow>
                                 (PrintConfiguration (configuration_lines ratio' a) # evs, r))))))"

subsection \<open>Concrete inputs\<close>

text \<open>The namespace of a command line without options: every default of the parser.\<close>

definition default_args :: args where
  "default_args =
     \<lparr>local_rank = 0, num_epochs = 2, model_name = ''RN50'', band = ''all'', pretrained = False,
      smallset = False, mask_type = ''spectral'', batch_size = 64, ratio = 50, lr = 1 / 10000,
      pruning_ft = False, pruning_test = False, global_prune = False,
      conv2d_prune_amount = 1 / 5, linear_prune_amount = 1 / 10, pruning_rounds = 1, seed = 44,
      checkpoint_path = ''./checkpoints/mask_0/rn50ft.pth''\<rparr>"

text \<open>A network of one convolution and a head of two inputs, and a checkpoint for it.\<close>

definition small_net :: net where
  "small_net =
     \<lparr>features = [\<lparr>mname = ''conv1'', mkind = Conv2d,
                    weight = \<lparr>shape = [1, 1, 2, 2], data = [3, - 1, 2, 5]\<rparr>, bias = None\<rparr>],
      fc = \<lparr>mname = ''fc'', mkind = Linear,
            weight = \<lparr>shape = [1, 2], data = [4, 7]\<rparr>,
            bias = Some \<lparr>shape = [1], data = [1]\<rparr>\<rparr>\<rparr>"

definition head_state :: state_dict where
  "head_state =
     [(''weight'', \<lparr>shape = [1, 2], data = [6, - 2]\<rparr>), (''bias'', \<lparr>shape = [1], data = [9]\<rparr>)]"

definition full_state :: state_dict where
  "full_state =
     [(''module.conv1.weight'', \<lparr>shape = [1, 1, 2, 2], data = [8, 1, - 4, 2]\<rparr>),
      (''module.fc.weight'', \<lparr>shape = [1, 2], data = [6, - 2]\<rparr>),
      (''module.fc.bias'', \<lparr>shape = [1], data = [9]\<rparr>)]"

definition small_world :: world where
  "small_world =
     \<lparr>environ = [''LOCAL_RANK'' \<mapsto> ''0''],
      files = [''./checkpoints/mask_0/rn50ft.pth'' \<mapsto> [''model_state_dict'' \<mapsto> full_state],
               ''head.pth'' \<mapsto> [''model_state_dict'' \<mapsto> head_state]],
      resnet50 = (\<lambda>p. small_net), resnet50_mod = (\<lambda>p. small_net), clip_model = small_net,
      linear_init = (\<lambda>n. replicate n 0),
      trained = (\<lambda>r m j i. of_nat (r + j + i) + 1)\<rparr>"

text \<open>Three prunable layers, and a configuration of two rounds of global pruning that in
  each round removes half of the remaining convolutional and a third of the remaining linear
  weights.\<close>

definition three_layers :: "layer list" where
  "three_layers =
     [\<lparr>lkind = Conv2d, weights = [3, - 1, 2, 5], keep = [True, True, True, True]\<rparr>,
      \<lparr>lkind = Linear, weights = [4, 7, - 6], keep = [True, True, True]\<rparr>,
      \<lparr>lkind = Conv2d, weights = [1, - 8], keep = [True, True]\<rparr>]"

definition half_pruning :: args where
  "half_pruning =
     default_args\<lparr>pruning_ft := True, global_prune := True,
       conv2d_prune_amount := 1 / 2, linear_prune_amount := 1 / 3, pruning_rounds := 2\<rparr>"

section \<open>Properties\<close>

subsection \<open>Helper facts\<close>

lemma str_int_0: "str_int 0 = ''0''"
  by (simp add: str_int_def str_nat.simps)

lemma small_world_environ: "environ small_world ''LOCAL_RANK'' = Some ''0''"
  by (simp add: small_world_def)

lemma float_bound: "(10::rat) < 2 ^ 1024 - 2 ^ 970"
proof -
  have "(2::rat) ^ 1024 = 2 ^ 970 * 2 ^ 54" by (simp only: power_add [symmetric]) simp
  then have "(2::rat) ^ 1024 - 2 ^ 970 = 2 ^ 970 * (2 ^ 54 - 1)" by (simp add: algebra_simps)
  moreover have "(1::rat) \<le> 2 ^ 970" by (rule one_le_power) simp
  moreover have "(10::rat) < 2 ^ 54 - 1" by simp
  ultimately show ?thesis
    by (metis less_le_trans mult_le_cancel_right1 not_le order_less_imp_le mult.commute zero_less_numeral less_trans)
qed

lemma true_divide_100:
  assumes "\<bar>x\<bar> \<le> 1000"
  shows "true_divide x 100 = Inr (of_int x / 100)"
proof -
  have "\<bar>of_int x / 100 :: rat\<bar> = of_int \<bar>x\<bar> / 100" by simp
  also have "\<dots> \<le> 10" using assms by (simp add: divide_le_eq)
  finally have "\<bar>of_int x / 100 :: rat\<bar> < 2 ^ 1024 - 2 ^ 970" using float_bound by (rule le_less_trans)
  then show ?thesis by (simp add: true_divide_def not_le [symmetric] del: of_int_abs)
qed

lemma startup_ok:
  "0 \<le> seed (kw_args kw) \<Longrightarrow> seed (kw_args kw) \<le> 2 ^ 32 - 1 \<Longrightarrow> 0 \<le> kw_local_rank kw \<Longrightarrow>
     startup kw = ([SetSeed (seed (kw_args kw)), SetDevice (kw_local_rank kw), InitProcessGroup], None)"
  by (simp add: startup_def manual_seeds_def torch_device_def)

lemma startup_events:
  "set (fst (startup kw)) \<subseteq> {SetSeed (seed (kw_args kw)), SetDevice (kw_local_rank kw), InitProcessGroup}"
  by (auto simp add: startup_def split: option.splits)

lemma startup_mask_type: "startup (kw\<lparr>kw_mask_type := mt\<rparr>) = startup kw"
  by (simp add: startup_def split: option.splits)



lemma main_any_other_mask_type:
  "mt \<noteq> Some ''spectral'' \<Longrightarrow> mt \<noteq> Some ''pixel'' \<Longrightarrow> mt \<noteq> Some ''patch'' \<Longrightarrow>
     main w (kw\<lparr>kw_mask_type := mt\<rparr>) = main w (kw\<lparr>kw_mask_type := Some ''nomask''\<rparr>)"
  by (simp add: main_def startup_mask_type make_mask_generator_def Let_def
      split: sum.splits prod.splits option.splits)

lemma unknown_model_name_rejected:
  "model_name raw \<notin> set model_name_choices \<Longrightarrow>
     script w raw =
       ([], Inl (case environ w ''LOCAL_RANK'' of
                   None \<Rightarrow> KeyError ''LOCAL_RANK''
                 | Some v \<Rightarrow> SystemExit 2))"
  by (simp add: script_def parse_args_def Let_def split: option.splits)

lemma true_divide_0: "true_divide 0 100 = Inr 0"
  using true_divide_100 [of 0] by simp





lemma main_call_with_mask:
  "\<bar>ratio a\<bar> \<le> 1000 \<Longrightarrow> mask_type a \<noteq> ''nomask'' \<Longrightarrow>
   main_call a =
     Inr \<lparr>kw_local_rank = local_rank a, kw_nhead = 8, kw_num_layers = 6, kw_num_epochs = 5,
          kw_ratio = of_int (ratio a) / 100, kw_batch_size = batch_size a,
          kw_model_name = model_name a, kw_band = band a,
          kw_mask_type = Some (mask_type a), kw_pretrained = pretrained a, kw_args = a\<rparr>"
  by (simp add: main_call_def effective_config_def true_divide_100)

lemma default_args_fields:
  "local_rank default_args = 0" "seed default_args = 44" "batch_size default_args = 64"
  "ratio default_args = 50" "mask_type default_args = ''spectral''" "band default_args = ''all''"
  "model_name default_args = ''RN50''" "pretrained default_args = False" "lr default_args = 1 / 10000"
  "smallset default_args = False" "global_prune default_args = False"
  "pruning_test default_args = False" "pruning_ft default_args = False"
  "conv2d_prune_amount default_args = 1 / 5" "linear_prune_amount default_args = 1 / 10"
  "pruning_rounds default_args = 1" "num_epochs default_args = 2"
  "checkpoint_path default_args = ''./checkpoints/mask_0/rn50ft.pth''"
  by (simp_all add: default_args_def)

lemma main_bad_ratio:
  "1 < kw_ratio kw \<or> kw_ratio kw < 0 \<Longrightarrow>
     main w kw =
       (fst (startup kw),
        Inl (case snd (startup kw) of Some e \<Rightarrow> e | None \<Rightarrow> NameError ''valueError''))"
  by (cases "startup kw") (auto simp add: main_def Let_def split: option.splits)

lemma build_model_unrecognized:
  "n \<noteq> ''RN50'' \<Longrightarrow> n \<noteq> ''RN50_mod'' \<Longrightarrow> \<not> startswith n ''clip'' \<Longrightarrow>
     build_model w n p = Inl (ValueError (''Model '' @ n @ '' not recognized!''))"
  by (simp add: build_model_def)

lemma main_build_fails:
  assumes "build_model w (kw_model_name kw) (kw_pretrained kw) = Inl e"
  shows "(\<exists>e'. snd (main w kw) = Inl e') \<and> IterativePruningFinetuning \<notin> set (fst (main w kw))
     \<and> (0 \<le> seed (kw_args kw) \<and> seed (kw_args kw) \<le> 2 ^ 32 - 1 \<and> 0 \<le> kw_local_rank kw
          \<and> 0 \<le> kw_ratio kw \<and> kw_ratio kw \<le> 1 \<and> 0 < kw_batch_size kw \<longrightarrow>
          snd (main w kw) = Inl e \<and> ValLoader (kw_batch_size kw) \<in> set (fst (main w kw)))"
proof (intro conjI impI)
  have ev: "IterativePruningFinetuning \<notin> set (fst (startup kw))"
    using startup_events [of kw] by auto
  show "\<exists>e'. snd (main w kw) = Inl e'"
    using assms by (cases "startup kw") (auto simp add: main_def Let_def split: option.splits)
  show "IterativePruningFinetuning \<notin> set (fst (main w kw))"
    using assms ev by (cases "startup kw") (auto simp add: main_def Let_def split: option.splits)
next
  assume ok: "0 \<le> seed (kw_args kw) \<and> seed (kw_args kw) \<le> 2 ^ 32 - 1 \<and> 0 \<le> kw_local_rank kw
          \<and> 0 \<le> kw_ratio kw \<and> kw_ratio kw \<le> 1 \<and> 0 < kw_batch_size kw"
  then have s: "startup kw = ([SetSeed (seed (kw_args kw)), SetDevice (kw_local_rank kw), InitProcessGroup], None)"
    by (simp add: startup_ok)
  show "snd (main w kw) = Inl e" "ValLoader (kw_batch_size kw) \<in> set (fst (main w kw))"
    using assms ok by (simp_all add: main_def s DataLoader_def Let_def)
qed

lemma script_RN18_ratio_150:
  "script small_world (default_args\<lparr>model_name := ''RN18'', ratio := 150\<rparr>) =
     ([PrintConfiguration
         [(''Seed'', PInt 44), (''Mask Type'', PStr ''spectral''), (''Mask Ratio'', PInt 150),
          (''Mask Band'', PStr ''all''), (''Model Arch'', PStr ''RN18''),
          (''ImageNet Weights'', PBool False),
          (''Checkpoint'', PStr ''./checkpoints/mask_0/rn50ft.pth''),
          (''Global Pruning'', PBool False), (''Pruning-Test'', PBool False),
          (''Pruning-Finetune'', PBool False), (''Pruning Ratio'', PFloat (1 / 5))],
       SetSeed 44, SetDevice 0, InitProcessGroup],
      Inl (NameError ''valueError''))"
proof -
  let ?a = "default_args\<lparr>model_name := ''RN18'', ratio := 150\<rparr>"
  have p: "parse_args ?a = Inr ?a"
    by (simp add: parse_args_def model_name_choices_def band_choices_def mask_type_choices_def
        default_args_fields)
  have c: "effective_config ?a = (150, ?a, ''./checkpoints/mask_'' @ str_int 150)"
    by (simp add: effective_config_def default_args_fields)
  have k: "main_call ?a = Inr \<lparr>kw_local_rank = 0, kw_nhead = 8, kw_num_layers = 6, kw_num_epochs = 5,
         kw_ratio = 3 / 2, kw_batch_size = 64, kw_model_name = ''RN18'', kw_band = ''all'',
         kw_mask_type = Some ''spectral'', kw_pretrained = False, kw_args = ?a\<rparr>"
    using main_call_with_mask [of ?a] by (simp add: default_args_fields)
  have m: "main w' \<lparr>kw_local_rank = 0, kw_nhead = 8, kw_num_layers = 6, kw_num_epochs = 5,
         kw_ratio = 3 / 2, kw_batch_size = 64, kw_model_name = ''RN18'', kw_band = ''all'',
         kw_mask_type = Some ''spectral'', kw_pretrained = False, kw_args = ?a\<rparr>
       = ([SetSeed 44, SetDevice 0, InitProcessGroup], Inl (NameError ''valueError''))" for w'
    by (subst main_bad_ratio) (simp_all add: startup_def manual_seeds_def torch_device_def default_args_fields)
  show ?thesis
    by (simp add: script_def Let_def small_world_environ p c k m configuration_lines_def
        default_args_fields small_world_def)
qed

lemma shapes_match_lookup:
  "shapes_match own sd \<Longrightarrow> (k, t) \<in> set own \<Longrightarrow> \<exists>t'. map_of sd k = Some t' \<and> shape t' = shape t"
  by (auto simp add: shapes_match_def list_all_iff split: option.splits)

lemma shapes_match_keys:
  "shapes_match own sd \<Longrightarrow> (k, t') \<in> set sd \<Longrightarrow> k \<in> fst ` set own"
  by (auto simp add: shapes_match_def list_all_iff)

lemma shapes_match_iff:
  "shapes_match own sd \<longleftrightarrow>
     set (map fst sd) = set (map fst own)
     \<and> (\<forall>(k, t) \<in> set own. \<exists>t'. map_of sd k = Some t' \<and> shape t' = shape t)"
proof
  assume m: "shapes_match own sd"
  have a: "\<forall>(k, t) \<in> set own. \<exists>t'. map_of sd k = Some t' \<and> shape t' = shape t"
    using shapes_match_lookup [OF m] by blast
  have b: "fst ` set sd \<subseteq> fst ` set own"
  proof
    fix k assume "k \<in> fst ` set sd"
    then obtain t' where "(k, t') \<in> set sd" by auto
    then show "k \<in> fst ` set own" by (rule shapes_match_keys [OF m])
  qed
  have c: "fst ` set own \<subseteq> fst ` set sd"
  proof
    fix k assume "k \<in> fst ` set own"
    then obtain t where "(k, t) \<in> set own" by auto
    with a obtain t' where "map_of sd k = Some t'" by blast
    then have "(k, t') \<in> set sd" by (rule map_of_SomeD)
    then show "k \<in> fst ` set sd" by (rule rev_image_eqI) simp
  qed
  from b c have e: "set (map fst sd) = set (map fst own)" by simp
  from e a show "set (map fst sd) = set (map fst own)
     \<and> (\<forall>(k, t) \<in> set own. \<exists>t'. map_of sd k = Some t' \<and> shape t' = shape t)"
    by (rule conjI)
next
  assume h: "set (map fst sd) = set (map fst own)
     \<and> (\<forall>(k, t) \<in> set own. \<exists>t'. map_of sd k = Some t' \<and> shape t' = shape t)"
  then have e: "fst ` set sd = fst ` set own" by simp
  have 1: "list_all (\<lambda>(k, t). case map_of sd k of None \<Rightarrow> False | Some t' \<Rightarrow> shape t' = shape t) own"
    unfolding list_all_iff
  proof (intro ballI)
    fix p assume p: "p \<in> set own"
    obtain k t where kt: "p = (k, t)" by (cases p)
    with h p obtain t' where "map_of sd k = Some t'" "shape t' = shape t" by blast
    then show "case p of (k, t) \<Rightarrow> case map_of sd k of None \<Rightarrow> False | Some t' \<Rightarrow> shape t' = shape t"
      by (simp add: kt)
  qed
  have 2: "list_all (\<lambda>(k, t'). k \<in> set (map fst own)) sd"
    unfolding list_all_iff
  proof (intro ballI)
    fix p assume p: "p \<in> set sd"
    then have "fst p \<in> fst ` set sd" by (rule imageI)
    with e show "case p of (k, t') \<Rightarrow> k \<in> set (map fst own)" by (simp add: case_prod_unfold)
  qed
  from 1 2 show "shapes_match own sd" by (simp only: shapes_match_def simp_thms)
qed

lemma module_reload_the:
  assumes "shapes_match own sd" and "set (module_state pre m) \<subseteq> set own"
  shows "module_reload pre sd m =
     m\<lparr>weight := the (map_of sd (pre @ ''weight'')),
       bias := map_option (\<lambda>b. the (map_of sd (pre @ ''bias''))) (bias m)\<rparr>"
proof -
  have "(pre @ ''weight'', weight m) \<in> set own"
    using assms(2) by (auto simp add: module_state_def)
  from shapes_match_lookup [OF assms(1) this]
  obtain tw where w: "map_of sd (pre @ ''weight'') = Some tw" by blast
  show ?thesis
  proof (cases "bias m")
    case None
    then show ?thesis by (simp add: module_reload_def fetch_def w)
  next
    case (Some b0)
    then have "(pre @ ''bias'', b0) \<in> set own"
      using assms(2) by (auto simp add: module_state_def)
    from shapes_match_lookup [OF assms(1) this]
    obtain tb where b: "map_of sd (pre @ ''bias'') = Some tb" by blast
    show ?thesis by (simp add: module_reload_def fetch_def w b Some)
  qed
qed

lemma load_fc_explicit:
  "load_fc_state_dict model sd =
     (if set (map fst sd) = set (map fst (module_state [] (fc model)))
         \<and> (\<forall>(k, t) \<in> set (module_state [] (fc model)). \<exists>t'. map_of sd k = Some t' \<and> shape t' = shape t)
      then Inr (model\<lparr>fc := (fc model)\<lparr>weight := the (map_of sd ''weight''),
                  bias := map_option (\<lambda>b. the (map_of sd ''bias'')) (bias (fc model))\<rparr>\<rparr>)
      else Inl (RuntimeError ''load_state_dict''))"
proof (cases "shapes_match (module_state [] (fc model)) sd")
  case True
  have P: "set (map fst sd) = set (map fst (module_state [] (fc model)))
         \<and> (\<forall>(k, t) \<in> set (module_state [] (fc model)). \<exists>t'. map_of sd k = Some t' \<and> shape t' = shape t)"
    using True by (rule shapes_match_iff [THEN iffD1])
  have r: "module_reload [] sd (fc model) = (fc model)\<lparr>weight := the (map_of sd ''weight''),
                  bias := map_option (\<lambda>b. the (map_of sd ''bias'')) (bias (fc model))\<rparr>"
    using module_reload_the [OF True subset_refl] by (simp only: append_Nil)
  have "load_fc_state_dict model sd = Inr (model\<lparr>fc := module_reload [] sd (fc model)\<rparr>)"
    by (subst load_fc_state_dict_def) (rule if_P [OF True])
  then show ?thesis by (subst if_P [OF P]) (simp only: r)
next
  case False
  have P: "\<not> (set (map fst sd) = set (map fst (module_state [] (fc model)))
         \<and> (\<forall>(k, t) \<in> set (module_state [] (fc model)). \<exists>t'. map_of sd k = Some t' \<and> shape t' = shape t))"
    using False shapes_match_iff [THEN iffD2] by blast
  have "load_fc_state_dict model sd = Inl (RuntimeError ''load_state_dict'')"
    by (subst load_fc_state_dict_def) (rule if_not_P [OF False])
  then show ?thesis by (subst if_not_P [OF P])
qed

lemma module_state_prefix:
  "module_state (p @ q) m = map (\<lambda>(k, t). (p @ k, t)) (module_state q m)"
  by (cases "bias m") (simp_all add: module_state_def)

lemma load_full_explicit:
  "load_state_dict model sd =
     (if set (map fst sd) = set (map (\<lambda>(k, t). ''module.'' @ k) (net_state model))
         \<and> (\<forall>(k, t) \<in> set (net_state model). \<exists>t'. map_of sd (''module.'' @ k) = Some t' \<and> shape t' = shape t)
      then Inr \<lparr>features = map (\<lambda>m. m\<lparr>weight := the (map_of sd (''module.'' @ mname m @ ''.weight'')),
                                      bias := map_option (\<lambda>b. the (map_of sd (''module.'' @ mname m @ ''.bias''))) (bias m)\<rparr>)
                             (features model),
                fc = (fc model)\<lparr>weight := the (map_of sd ''module.fc.weight''),
                       bias := map_option (\<lambda>b. the (map_of sd ''module.fc.bias'')) (bias (fc model))\<rparr>\<rparr>
      else Inl (RuntimeError ''load_state_dict''))"
proof -
  let ?own = "map (\<lambda>(k, t). (''module.'' @ k, t)) (net_state model)"
  have keys: "map fst ?own = map (\<lambda>(k, t). ''module.'' @ k) (net_state model)"
    by (simp add: case_prod_unfold)
  have shp: "(\<forall>(k, t) \<in> set ?own. \<exists>t'. map_of sd k = Some t' \<and> shape t' = shape t)
      \<longleftrightarrow> (\<forall>(k, t) \<in> set (net_state model). \<exists>t'. map_of sd (''module.'' @ k) = Some t' \<and> shape t' = shape t)"
    by auto
  have iff: "shapes_match ?own sd \<longleftrightarrow>
      set (map fst sd) = set (map (\<lambda>(k, t). ''module.'' @ k) (net_state model))
      \<and> (\<forall>(k, t) \<in> set (net_state model). \<exists>t'. map_of sd (''module.'' @ k) = Some t' \<and> shape t' = shape t)"
    by (simp only: shapes_match_iff keys shp)
  show ?thesis
  proof (cases "shapes_match ?own sd")
    case False
    have P: "\<not> (set (map fst sd) = set (map (\<lambda>(k, t). ''module.'' @ k) (net_state model))
      \<and> (\<forall>(k, t) \<in> set (net_state model). \<exists>t'. map_of sd (''module.'' @ k) = Some t' \<and> shape t' = shape t))"
      using False iff by blast
    have "load_state_dict model sd = Inl (RuntimeError ''load_state_dict'')"
      by (subst load_state_dict_def) (rule if_not_P [OF False])
    then show ?thesis by (subst if_not_P [OF P])
  next
    case True
    have P: "set (map fst sd) = set (map (\<lambda>(k, t). ''module.'' @ k) (net_state model))
      \<and> (\<forall>(k, t) \<in> set (net_state model). \<exists>t'. map_of sd (''module.'' @ k) = Some t' \<and> shape t' = shape t)"
      using True iff by blast
    have pre: "set (map (\<lambda>(k, t). (''module.'' @ k, t)) (module_state q m)) \<subseteq> set ?own"
      if "set (module_state q m) \<subseteq> set (net_state model)" for q m
      using that by auto
    have subf: "set (module_state (''module.'' @ mname m @ ''.'') m) \<subseteq> set ?own"
      if "m \<in> set (features model)" for m
    proof -
      have "set (module_state (mname m @ ''.'') m) \<subseteq> set (net_state model)"
        using that by (auto simp add: net_state_def)
      from pre [OF this] show ?thesis by (simp only: module_state_prefix)
    qed
    have subfc: "set (module_state (''module.'' @ ''fc.'') (fc model)) \<subseteq> set ?own"
    proof -
      have "set (module_state ''fc.'' (fc model)) \<subseteq> set (net_state model)"
        by (auto simp add: net_state_def)
      from pre [OF this] show ?thesis by (simp only: module_state_prefix)
    qed
    have f: "map (\<lambda>m. module_reload (''module.'' @ mname m @ ''.'') sd m) (features model)
        = map (\<lambda>m. m\<lparr>weight := the (map_of sd (''module.'' @ mname m @ ''.weight'')),
                       bias := map_option (\<lambda>b. the (map_of sd (''module.'' @ mname m @ ''.bias''))) (bias m)\<rparr>)
            (features model)"
    proof (rule map_cong [OF refl])
      fix m assume "m \<in> set (features model)"
      from module_reload_the [OF True subf [OF this]]
      show "module_reload (''module.'' @ mname m @ ''.'') sd m
          = m\<lparr>weight := the (map_of sd (''module.'' @ mname m @ ''.weight'')),
               bias := map_option (\<lambda>b. the (map_of sd (''module.'' @ mname m @ ''.bias''))) (bias m)\<rparr>"
        by simp
    qed
    have h: "module_reload ''module.fc.'' sd (fc model)
        = (fc model)\<lparr>weight := the (map_of sd ''module.fc.weight''),
                       bias := map_option (\<lambda>b. the (map_of sd ''module.fc.bias'')) (bias (fc model))\<rparr>"
      using module_reload_the [OF True subfc] by simp
    have "load_state_dict model sd =
        Inr \<lparr>features = map (\<lambda>m. module_reload (''module.'' @ mname m @ ''.'') sd m) (features model),
             fc = module_reload ''module.fc.'' sd (fc model)\<rparr>"
      by (subst load_state_dict_def) (rule if_P [OF True])
    then show ?thesis by (subst if_P [OF P]) (simp only: f h)
  qed
qed

lemma clear_positions_shrinks: "list_all2 (\<lambda>k k'. k' \<longrightarrow> k) ks (clear_positions v ks)"
  by (simp add: clear_positions_def list_all2_conv_all_nth nth_enumerate_eq)

lemma keeps_le_refl: "keeps_le l l"
  by (simp add: list_all2_conv_all_nth)

lemma keeps_le_trans: "keeps_le a b \<Longrightarrow> keeps_le b c \<Longrightarrow> keeps_le a c"
  by (auto simp add: list_all2_conv_all_nth)

lemma prune_layer_shrinks: "keeps_le l (prune_layer a l)"
  by (simp add: prune_layer_def Let_def clear_positions_shrinks)

lemma prune_global_shrinks: "list_all2 keeps_le m (prune_global K a m)"
  by (simp add: prune_global_def Let_def list_all2_conv_all_nth nth_enumerate_eq
      clear_positions_shrinks [unfolded list_all2_conv_all_nth])

lemma prune_round_shrinks: "list_all2 keeps_le m (prune_round m ca la g)"
proof (cases g)
  case True
  have "list_all2 keeps_le m (prune_global Conv2d ca m)"
    by (rule prune_global_shrinks)
  moreover have "list_all2 keeps_le (prune_global Conv2d ca m) (prune_global Linear la (prune_global Conv2d ca m))"
    by (rule prune_global_shrinks)
  ultimately have "list_all2 keeps_le m (prune_global Linear la (prune_global Conv2d ca m))"
    by (rule list_all2_trans [rotated]) (rule keeps_le_trans)
  then show ?thesis using True by (simp add: prune_round_def)
next
  case False
  have "keeps_le l (case lkind l of Conv2d \<Rightarrow> prune_layer ca l | Linear \<Rightarrow> prune_layer la l | Other \<Rightarrow> l)" for l
    by (cases "lkind l") (simp_all add: prune_layer_shrinks keeps_le_refl)
  then show ?thesis using False
    by (simp add: prune_round_def list_all2_map2 list_all2_same)
qed

lemma fine_tune_shrinks: "list_all2 keeps_le m (fine_tune nw m)"
  by (simp add: fine_tune_def list_all2_conv_all_nth nth_enumerate_eq)

lemma round_shrinks: "list_all2 keeps_le (after_rounds tr a r m) (after_rounds tr a (Suc r) m)"
proof -
  let ?p = "prune_round (after_rounds tr a r m) (conv2d_prune_amount a) (linear_prune_amount a) (global_prune a)"
  have p: "list_all2 keeps_le (after_rounds tr a r m) ?p"
    by (rule prune_round_shrinks)
  have "list_all2 keeps_le ?p (fine_tune (tr r ?p) ?p)"
    by (rule fine_tune_shrinks)
  with p have "list_all2 keeps_le (after_rounds tr a r m) (fine_tune (tr r ?p) ?p)"
    by (rule list_all2_trans [rotated]) (rule keeps_le_trans)
  with p show ?thesis by (simp add: Let_def)
qed

lemma rounds_shrink:
  "r1 \<le> r2 \<Longrightarrow> list_all2 keeps_le (after_rounds tr a r1 m) (after_rounds tr a r2 m)"
proof (induction r2)
  case 0
  then show ?case by (simp add: list_all2_same keeps_le_refl)
next
  case (Suc r2)
  show ?case
  proof (cases "r1 = Suc r2")
    case True
    then show ?thesis by (simp only: list_all2_same keeps_le_refl) simp
  next
    case False
    with Suc have "list_all2 keeps_le (after_rounds tr a r1 m) (after_rounds tr a r2 m)" by simp
    moreover note round_shrinks [of tr a r2 m]
    ultimately show ?thesis by (rule list_all2_trans [rotated]) (rule keeps_le_trans)
  qed
qed

lemma cleared_iff:
  "(j, i) \<in> set (map (\<lambda>(i, k). (j', i)) (filter (\<lambda>(i, k). \<not> k) (enumerate 0 ks)))
     \<longleftrightarrow> j = j' \<and> i < length ks \<and> \<not> ks ! i"
  by (force simp add: in_set_enumerate_eq)

lemma zeroed_iff:
  "(j, i) \<in> set (zeroed m) \<longleftrightarrow> j < length m \<and> i < length (keep (m ! j)) \<and> \<not> keep (m ! j) ! i"
proof -
  have "(j, i) \<in> set (zeroed m) \<longleftrightarrow>
      (\<exists>p \<in> set (enumerate 0 m). (j, i) \<in> set (map (\<lambda>(i, k). (fst p, i))
          (filter (\<lambda>(i, k). \<not> k) (enumerate 0 (keep (snd p))))))"
    by (simp add: zeroed_def case_prod_unfold)
  also have "\<dots> \<longleftrightarrow> (\<exists>p \<in> set (enumerate 0 m). j = fst p \<and> i < length (keep (snd p)) \<and> \<not> keep (snd p) ! i)"
    by (simp only: cleared_iff)
  also have "\<dots> \<longleftrightarrow> j < length m \<and> i < length (keep (m ! j)) \<and> \<not> keep (m ! j) ! i"
  proof
    assume "\<exists>p \<in> set (enumerate 0 m). j = fst p \<and> i < length (keep (snd p)) \<and> \<not> keep (snd p) ! i"
    then obtain p where "p \<in> set (enumerate 0 m)" "j = fst p" "i < length (keep (snd p))" "\<not> keep (snd p) ! i"
      by blast
    then show "j < length m \<and> i < length (keep (m ! j)) \<and> \<not> keep (m ! j) ! i"
      by (simp add: in_set_enumerate_eq)
  next
    assume a: "j < length m \<and> i < length (keep (m ! j)) \<and> \<not> keep (m ! j) ! i"
    then have "(j, m ! j) \<in> set (enumerate 0 m)"
      by (simp add: in_set_enumerate_eq)
    with a show "\<exists>p \<in> set (enumerate 0 m). j = fst p \<and> i < length (keep (snd p)) \<and> \<not> keep (snd p) ! i"
      by (intro bexI [of _ "(j, m ! j)"]) simp_all
  qed
  finally show ?thesis .
qed

lemma shrink_zeroed:
  assumes "list_all2 keeps_le m m'"
  shows "set (zeroed m) \<subseteq> set (zeroed m')"
proof
  fix p assume p: "p \<in> set (zeroed m)"
  obtain j i where ji: "p = (j, i)" by (cases p)
  from p ji have a: "j < length m" "i < length (keep (m ! j))" "\<not> keep (m ! j) ! i"
    by (simp_all add: zeroed_iff)
  from assms a(1) have len: "length m' = length m" and kl: "keeps_le (m ! j) (m' ! j)"
    by (simp_all add: list_all2_conv_all_nth)
  from kl a(2,3) have "i < length (keep (m' ! j))" "\<not> keep (m' ! j) ! i"
    by (auto simp add: list_all2_conv_all_nth)
  with a(1) len show "p \<in> set (zeroed m')" by (simp add: ji zeroed_iff)
qed

lemma zeroed_effective:
  "(j, i) \<in> set (zeroed m) \<Longrightarrow> i < length (weights (m ! j)) \<Longrightarrow> effective (m ! j) ! i = 0"
  by (simp add: zeroed_iff effective_def)

lemma zeroed_round_1:
  "zeroed (after_rounds (trained small_world) half_pruning 1 three_layers) = [(0, 1), (0, 2), (1, 0), (2, 0)]"
  by code_simp

lemma zeroed_round_2:
  "zeroed (after_rounds (trained small_world) half_pruning 2 three_layers)
     = [(0, 0), (0, 1), (0, 2), (1, 0), (2, 0)]"
  by code_simp

lemma final_zeroed:
  "set (zeroed m) \<subseteq> set (zeroed (iterative_pruning_finetuning tr a m))"
proof (cases "pruning_test a")
  case True
  then show ?thesis by (simp add: iterative_pruning_finetuning_def)
next
  case False
  then show ?thesis
    using shrink_zeroed [OF rounds_shrink [of 0 "nat (pruning_rounds a)" tr a m]]
    by (simp add: iterative_pruning_finetuning_def)
qed

subsection \<open>The environment variable LOCAL_RANK\<close>

text \<open>
  C9. Line 32 reads \<^verbatim>\<open>os.environ['LOCAL_RANK']\<close> at module level. When the variable
  is unset the script ends with a KeyError and has made no call at all: whatever the
  command line holds, valid or not, it is never parsed or validated. The two assignments
  to \<^verbatim>\<open>os.environ\<close> of lines 29 and 30 do not set the variable.
\<close>

theorem local_rank_unset_KeyError:
  "environ w ''LOCAL_RANK'' = None \<Longrightarrow> script w raw = ([], Inl (KeyError ''LOCAL_RANK''))"
  by (simp add: script_def Let_def)

theorem local_rank_unset_KeyError_witness:
  "environ (small_world\<lparr>environ := Map.empty\<rparr>) ''LOCAL_RANK'' = None
   \<and> script (small_world\<lparr>environ := Map.empty\<rparr>) (default_args\<lparr>mask_type := ''no such mask''\<rparr>)
       = ([], Inl (KeyError ''LOCAL_RANK''))"
  using local_rank_unset_KeyError
    [of "small_world\<lparr>environ := Map.empty\<rparr>" "default_args\<lparr>mask_type := ''no such mask''\<rparr>"]
  by simp

subsection \<open>The option mask_type\<close>

text \<open>
  C4. A \<^verbatim>\<open>--mask_type\<close> outside pixel, spectral, patch and nomask never reaches
  \<^verbatim>\<open>main\<close>: the parser's \<^verbatim>\<open>choices\<close> reject it, the script exits with status 2
  and has made no call, so no training has begun. (With LOCAL_RANK unset the script has
  already failed at line 32.) The rejection is the parser's: \<^verbatim>\<open>main\<close> itself has no
  check of \<^verbatim>\<open>mask_type\<close>, see \<open>main_any_other_mask_type\<close> above.
\<close>

theorem unknown_mask_type_rejected:
  "mask_type raw \<notin> set mask_type_choices \<Longrightarrow>
     script w raw =
       ([], Inl (case environ w ''LOCAL_RANK'' of
                   None \<Rightarrow> KeyError ''LOCAL_RANK''
                 | Some v \<Rightarrow> SystemExit 2))"
  by (simp add: script_def parse_args_def Let_def split: option.splits)

theorem unknown_mask_type_rejected_witness:
  "''blocks'' \<notin> set mask_type_choices
   \<and> script small_world (default_args\<lparr>mask_type := ''blocks''\<rparr>) = ([], Inl (SystemExit 2))"
  using unknown_mask_type_rejected [of "default_args\<lparr>mask_type := ''blocks''\<rparr>" small_world]
  by (simp add: mask_type_choices_def small_world_environ)

subsection \<open>Running without a mask\<close>

text \<open>
  C10. With \<^verbatim>\<open>--mask_type nomask\<close> lines 269 to 272 set the ratio to 0, overwrite
  \<^verbatim>\<open>args.band\<close> with the string None and name the checkpoint folder
  \<^verbatim>\<open>./checkpoints/mask_0\<close>. So \<^verbatim>\<open>main\<close> is called, with ratio 0 and band None,
  whatever \<^verbatim>\<open>--ratio\<close> and \<^verbatim>\<open>--band\<close> were: of a supplied ratio \<open>r\<close> and band
  \<open>b\<close> the call keeps nothing but the field \<^verbatim>\<open>args.ratio\<close> of the namespace.
\<close>

theorem nomask_ignores_ratio_and_band:
  "mask_type a = ''nomask'' \<Longrightarrow>
     effective_config a = (0, a\<lparr>band := ''None''\<rparr>, ''./checkpoints/mask_0'')
     \<and> (\<exists>kw. main_call a = Inr kw
            \<and> kw_ratio kw = 0
            \<and> kw_band kw = ''None''
            \<and> kw_args kw = a\<lparr>band := ''None''\<rparr>
            \<and> main_call (a\<lparr>ratio := r, band := b\<rparr>)
                = Inr (kw\<lparr>kw_args := a\<lparr>ratio := r, band := ''None''\<rparr>\<rparr>))"
  by (simp add: effective_config_def main_call_def str_int_0 true_divide_0)

theorem nomask_ignores_ratio_and_band_witness:
  "mask_type (default_args\<lparr>mask_type := ''nomask''\<rparr>) = ''nomask''
   \<and> effective_config (default_args\<lparr>mask_type := ''nomask''\<rparr>)
       = (0, default_args\<lparr>mask_type := ''nomask'', band := ''None''\<rparr>, ''./checkpoints/mask_0'')
   \<and> (\<exists>kw. main_call (default_args\<lparr>mask_type := ''nomask''\<rparr>) = Inr kw
          \<and> kw_ratio kw = 0
          \<and> kw_band kw = ''None''
          \<and> main_call (default_args\<lparr>mask_type := ''nomask'', ratio := 75, band := ''low''\<rparr>)
              = Inr (kw\<lparr>kw_args := default_args\<lparr>mask_type := ''nomask'', ratio := 75, band := ''None''\<rparr>\<rparr>))"
  using nomask_ignores_ratio_and_band
    [where a = "default_args\<lparr>mask_type := ''nomask''\<rparr>" and r = 75 and b = "''low''"]
  by simp blast

subsection \<open>The option num_epochs\<close>


subsection \<open>The ratio check\<close>

text \<open>
  C1. A ratio above 1 or below 0 takes the branch of line 83,
  \<^verbatim>\<open>raise valueError(f"Invalid mask ratio {ratio}")\<close>. The function does stop there,
  after seeding, choosing the device and joining the process group, and before any mask
  generator, dataset or model exists. But the exception is not the ValueError the claim
  names: \<^verbatim>\<open>valueError\<close> is an unbound name (line 123 spells the builtin
  \<^verbatim>\<open>ValueError\<close>), so what is raised is a NameError. The first conjunct gives the
  result for every call with such a ratio, also one whose seed or local rank the
  libraries refuse before line 82 is reached; the second is the case of a seed and a
  rank they accept. The lemma \<open>script_RN18_ratio_150\<close> runs the whole script on such a
  command line.
\<close>

theorem invalid_ratio_NameError:
  "1 < kw_ratio kw \<or> kw_ratio kw < 0 \<Longrightarrow>
     main w kw =
       (fst (startup kw),
        Inl (case snd (startup kw) of Some e \<Rightarrow> e | None \<Rightarrow> NameError ''valueError''))
     \<and> (0 \<le> seed (kw_args kw) \<and> seed (kw_args kw) \<le> 2 ^ 32 - 1 \<and> 0 \<le> kw_local_rank kw \<longrightarrow>
          main w kw =
            ([SetSeed (seed (kw_args kw)), SetDevice (kw_local_rank kw), InitProcessGroup],
             Inl (NameError ''valueError'')))"
proof -
  assume "1 < kw_ratio kw \<or> kw_ratio kw < 0"
  then have "main w kw =
       (fst (startup kw),
        Inl (case snd (startup kw) of Some e \<Rightarrow> e | None \<Rightarrow> NameError ''valueError''))"
    by (rule main_bad_ratio)
  then show ?thesis by (simp add: startup_ok)
qed

theorem invalid_ratio_NameError_witness:
  "main_call (default_args\<lparr>ratio := 150\<rparr>) =
     Inr \<lparr>kw_local_rank = 0, kw_nhead = 8, kw_num_layers = 6, kw_num_epochs = 5,
          kw_ratio = 3 / 2, kw_batch_size = 64, kw_model_name = ''RN50'', kw_band = ''all'',
          kw_mask_type = Some ''spectral'', kw_pretrained = False,
          kw_args = default_args\<lparr>ratio := 150\<rparr>\<rparr>
   \<and> (1 < (3 / 2 :: rat) \<or> (3 / 2 :: rat) < 0)
   \<and> main small_world
        \<lparr>kw_local_rank = 0, kw_nhead = 8, kw_num_layers = 6, kw_num_epochs = 5,
         kw_ratio = 3 / 2, kw_batch_size = 64, kw_model_name = ''RN50'', kw_band = ''all'',
         kw_mask_type = Some ''spectral'', kw_pretrained = False,
         kw_args = default_args\<lparr>ratio := 150\<rparr>\<rparr>
       = ([SetSeed 44, SetDevice 0, InitProcessGroup], Inl (NameError ''valueError''))"
  using invalid_ratio_NameError
    [of "\<lparr>kw_local_rank = 0, kw_nhead = 8, kw_num_layers = 6, kw_num_epochs = 5,
         kw_ratio = 3 / 2, kw_batch_size = 64, kw_model_name = ''RN50'', kw_band = ''all'',
         kw_mask_type = Some ''spectral'', kw_pretrained = False,
         kw_args = default_args\<lparr>ratio := 150\<rparr>\<rparr>" small_world, THEN conjunct2]
    main_call_with_mask [of "default_args\<lparr>ratio := 150\<rparr>"]
  by (simp add: default_args_fields)

subsection \<open>The model name\<close>

text \<open>
  C3, as the code has it. When \<^verbatim>\<open>model_name\<close> is neither RN50 nor RN50_mod and does
  not start with clip, \<^verbatim>\<open>main\<close> ends with an exception and never reaches the call of
  \<^verbatim>\<open>iterative_pruning_finetuning\<close>, so no training begins. The test of the name
  stands on line 113, after the seeding, the device, the ratio check and the data
  loaders. When all of these go through (a seed numpy accepts, a local rank that is not
  negative, a ratio within [0, 1], a positive batch size) the exception is the ValueError
  of line 123, with the message of the source, and the loaders have been built by then.
  From the command line only RN18 and RN34 get this far; any other unrecognized name is
  refused by the parser before \<^verbatim>\<open>main\<close> runs (\<open>unknown_model_name_rejected\<close>).
\<close>

theorem unrecognized_model_ValueError:
  "kw_model_name kw \<noteq> ''RN50'' \<Longrightarrow> kw_model_name kw \<noteq> ''RN50_mod'' \<Longrightarrow>
   \<not> startswith (kw_model_name kw) ''clip'' \<Longrightarrow>
     (\<exists>e. snd (main w kw) = Inl e)
     \<and> IterativePruningFinetuning \<notin> set (fst (main w kw))
     \<and> (0 \<le> seed (kw_args kw) \<and> seed (kw_args kw) \<le> 2 ^ 32 - 1 \<and> 0 \<le> kw_local_rank kw
          \<and> 0 \<le> kw_ratio kw \<and> kw_ratio kw \<le> 1 \<and> 0 < kw_batch_size kw \<longrightarrow>
          snd (main w kw) = Inl (ValueError (''Model '' @ kw_model_name kw @ '' not recognized!''))
          \<and> ValLoader (kw_batch_size kw) \<in> set (fst (main w kw)))"
  using main_build_fails [OF build_model_unrecognized] by blast

theorem unrecognized_model_ValueError_witness:
  "''RN18'' \<noteq> ''RN50'' \<and> ''RN18'' \<noteq> ''RN50_mod'' \<and> \<not> startswith ''RN18'' ''clip''
   \<and> main_call (default_args\<lparr>model_name := ''RN18''\<rparr>) =
       Inr \<lparr>kw_local_rank = 0, kw_nhead = 8, kw_num_layers = 6, kw_num_epochs = 5,
            kw_ratio = 1 / 2, kw_batch_size = 64, kw_model_name = ''RN18'', kw_band = ''all'',
            kw_mask_type = Some ''spectral'', kw_pretrained = False,
            kw_args = default_args\<lparr>model_name := ''RN18''\<rparr>\<rparr>
   \<and> IterativePruningFinetuning
        \<notin> set (fst (main small_world
             \<lparr>kw_local_rank = 0, kw_nhead = 8, kw_num_layers = 6, kw_num_epochs = 5,
              kw_ratio = 1 / 2, kw_batch_size = 64, kw_model_name = ''RN18'', kw_band = ''all'',
              kw_mask_type = Some ''spectral'', kw_pretrained = False,
              kw_args = default_args\<lparr>model_name := ''RN18''\<rparr>\<rparr>))
   \<and> snd (main small_world
             \<lparr>kw_local_rank = 0, kw_nhead = 8, kw_num_layers = 6, kw_num_epochs = 5,
              kw_ratio = 1 / 2, kw_batch_size = 64, kw_model_name = ''RN18'', kw_band = ''all'',
              kw_mask_type = Some ''spectral'', kw_pretrained = False,
              kw_args = default_args\<lparr>model_name := ''RN18''\<rparr>\<rparr>)
       = Inl (ValueError ''Model RN18 not recognized!'')"
  using unrecognized_model_ValueError
    [of "\<lparr>kw_local_rank = 0, kw_nhead = 8, kw_num_layers = 6, kw_num_epochs = 5,
              kw_ratio = 1 / 2, kw_batch_size = 64, kw_model_name = ''RN18'', kw_band = ''all'',
              kw_mask_type = Some ''spectral'', kw_pretrained = False,
              kw_args = default_args\<lparr>model_name := ''RN18''\<rparr>\<rparr>" small_world]
    main_call_with_mask [of "default_args\<lparr>model_name := ''RN18''\<rparr>"]
  by (simp add: default_args_fields startswith_def)

text \<open>
  C3, as the claim states it, fails: an unrecognized model name does not always end in a
  ValueError. With \<^verbatim>\<open>--model_name RN18 --ratio 150\<close> the ratio check of line 82 comes
  first and \<^verbatim>\<open>main\<close> ends in the NameError of line 83.
\<close>

theorem unrecognized_model_other_exception:
  "\<not> (\<forall>w kw. kw_model_name kw \<noteq> ''RN50'' \<and> kw_model_name kw \<noteq> ''RN50_mod''
              \<and> \<not> startswith (kw_model_name kw) ''clip''
            \<longrightarrow> (\<exists>s. snd (main w kw) = Inl (ValueError s)))"
proof
  let ?kw = "\<lparr>kw_local_rank = 0, kw_nhead = 8, kw_num_layers = 6, kw_num_epochs = 5,
         kw_ratio = 3 / 2, kw_batch_size = 64, kw_model_name = ''RN18'', kw_band = ''all'',
         kw_mask_type = Some ''spectral'', kw_pretrained = False,
         kw_args = default_args\<lparr>model_name := ''RN18'', ratio := 150\<rparr>\<rparr>"
  assume "\<forall>w kw. kw_model_name kw \<noteq> ''RN50'' \<and> kw_model_name kw \<noteq> ''RN50_mod''
              \<and> \<not> startswith (kw_model_name kw) ''clip''
            \<longrightarrow> (\<exists>s. snd (main w kw) = Inl (ValueError s))"
  then have "\<exists>s. snd (main small_world ?kw) = Inl (ValueError s)"
    by (simp add: startswith_def)
  moreover have "main small_world ?kw = ([SetSeed 44, SetDevice 0, InitProcessGroup], Inl (NameError ''valueError''))"
    using main_bad_ratio [of ?kw small_world]
    by (simp add: startup_def manual_seeds_def torch_device_def default_args_fields)
  ultimately show False by simp
qed

subsection \<open>The mask generator\<close>

text \<open>
  C5. Lines 86 to 93 build the mask generator from \<^verbatim>\<open>mask_type\<close>: spectral gives a
  FrequencyMaskGenerator with the ratio and the band, pixel a PixelMaskGenerator with the
  ratio, patch a PatchMaskGenerator with the ratio, and nomask gives no generator, with
  which the masking step returns the image as it is. Once lines 48 to 83 have gone
  through (a seed and a local rank the libraries accept, a ratio within [0, 1]), that
  generator is the one handed to \<^verbatim>\<open>train_augment\<close> and \<^verbatim>\<open>val_augment\<close>, and the
  only one constructed.
\<close>

theorem mask_generator_dispatch:
  "make_mask_generator r b (Some ''spectral'') = Some (FrequencyMaskGenerator r b)
   \<and> make_mask_generator r b (Some ''pixel'') = Some (PixelMaskGenerator r)
   \<and> make_mask_generator r b (Some ''patch'') = Some (PatchMaskGenerator r)
   \<and> make_mask_generator r b (Some ''nomask'') = None
   \<and> mask_step masked (make_mask_generator r b (Some ''nomask'')) img = img
   \<and> (0 \<le> seed (kw_args kw) \<and> seed (kw_args kw) \<le> 2 ^ 32 - 1 \<and> 0 \<le> kw_local_rank kw
        \<and> 0 \<le> kw_ratio kw \<and> kw_ratio kw \<le> 1 \<longrightarrow>
        (let g = make_mask_generator (kw_ratio kw) (kw_band kw) (kw_mask_type kw)
         in TrainAugment train_opt g \<in> set (fst (main w kw))
            \<and> ValAugment val_opt g \<in> set (fst (main w kw))
            \<and> (\<forall>g'. MakeMaskGenerator g' \<in> set (fst (main w kw)) \<longleftrightarrow> g = Some g')))"
proof (intro conjI impI)
  assume ok: "0 \<le> seed (kw_args kw) \<and> seed (kw_args kw) \<le> 2 ^ 32 - 1 \<and> 0 \<le> kw_local_rank kw
        \<and> 0 \<le> kw_ratio kw \<and> kw_ratio kw \<le> 1"
  then have s: "startup kw = ([SetSeed (seed (kw_args kw)), SetDevice (kw_local_rank kw), InitProcessGroup], None)"
    by (simp add: startup_ok)
  show "let g = make_mask_generator (kw_ratio kw) (kw_band kw) (kw_mask_type kw)
         in TrainAugment train_opt g \<in> set (fst (main w kw))
            \<and> ValAugment val_opt g \<in> set (fst (main w kw))
            \<and> (\<forall>g'. MakeMaskGenerator g' \<in> set (fst (main w kw)) \<longleftrightarrow> g = Some g')"
    using ok
    by (auto simp add: main_def s Let_def restore_def
        split: sum.splits prod.splits option.splits if_splits)
qed (simp_all add: make_mask_generator_def mask_step_def)

theorem mask_generator_dispatch_witness:
  "(0::int) \<le> 44 \<and> (44::int) \<le> 2 ^ 32 - 1 \<and> (0::int) \<le> 0 \<and> (0::rat) \<le> 1 / 2 \<and> (1 / 2 :: rat) \<le> 1
   \<and> main_call (default_args\<lparr>mask_type := ''patch''\<rparr>) =
       Inr \<lparr>kw_local_rank = 0, kw_nhead = 8, kw_num_layers = 6, kw_num_epochs = 5,
            kw_ratio = 1 / 2, kw_batch_size = 64, kw_model_name = ''RN50'', kw_band = ''all'',
            kw_mask_type = Some ''patch'', kw_pretrained = False,
            kw_args = default_args\<lparr>mask_type := ''patch''\<rparr>\<rparr>
   \<and> make_mask_generator (1 / 2) ''all'' (Some ''patch'') = Some (PatchMaskGenerator (1 / 2))
   \<and> mask_step (\<lambda>g img. []) (make_mask_generator (1 / 2) ''all'' (Some ''nomask'')) [1, 2, 3 :: int] = [1, 2, 3]
   \<and> TrainAugment train_opt (Some (PatchMaskGenerator (1 / 2)))
        \<in> set (fst (main small_world
             \<lparr>kw_local_rank = 0, kw_nhead = 8, kw_num_layers = 6, kw_num_epochs = 5,
              kw_ratio = 1 / 2, kw_batch_size = 64, kw_model_name = ''RN50'', kw_band = ''all'',
              kw_mask_type = Some ''patch'', kw_pretrained = False,
              kw_args = default_args\<lparr>mask_type := ''patch''\<rparr>\<rparr>))
   \<and> ValAugment val_opt (Some (PatchMaskGenerator (1 / 2)))
        \<in> set (fst (main small_world
             \<lparr>kw_local_rank = 0, kw_nhead = 8, kw_num_layers = 6, kw_num_epochs = 5,
              kw_ratio = 1 / 2, kw_batch_size = 64, kw_model_name = ''RN50'', kw_band = ''all'',
              kw_mask_type = Some ''patch'', kw_pretrained = False,
              kw_args = default_args\<lparr>mask_type := ''patch''\<rparr>\<rparr>))
   \<and> MakeMaskGenerator (PatchMaskGenerator (1 / 2))
        \<in> set (fst (main small_world
             \<lparr>kw_local_rank = 0, kw_nhead = 8, kw_num_layers = 6, kw_num_epochs = 5,
              kw_ratio = 1 / 2, kw_batch_size = 64, kw_model_name = ''RN50'', kw_band = ''all'',
              kw_mask_type = Some ''patch'', kw_pretrained = False,
              kw_args = default_args\<lparr>mask_type := ''patch''\<rparr>\<rparr>))"
  using mask_generator_dispatch
    [where r = "1 / 2" and b = "''all''" and masked = "\<lambda>g img. []" and img = "[1, 2, 3 :: int]"
       and kw = "\<lparr>kw_local_rank = 0, kw_nhead = 8, kw_num_layers = 6, kw_num_epochs = 5,
              kw_ratio = 1 / 2, kw_batch_size = 64, kw_model_name = ''RN50'', kw_band = ''all'',
              kw_mask_type = Some ''patch'', kw_pretrained = False,
              kw_args = default_args\<lparr>mask_type := ''patch''\<rparr>\<rparr>" and w = small_world]
    main_call_with_mask [of "default_args\<lparr>mask_type := ''patch''\<rparr>"]
  by (simp add: default_args_fields Let_def make_mask_generator_def mask_step_def)

subsection \<open>Pruning across rounds\<close>

text \<open>
  C2. In the orchestrator as the spec describes it, the zeroed weight positions after round
  \<open>r1\<close> are among those after every later round \<open>r2\<close>, whatever the amounts, the
  scope and the values that fine-tuning writes: a round only clears entries of the
  keep-masks, and fine-tuning does not touch them. A position zeroed after \<open>r1\<close> is
  never revived: the weight the network computes with there is 0 after \<open>r2\<close>. The
  same holds from the model that enters the orchestrator to the one it returns
  (\<open>final_zeroed\<close>).
\<close>

theorem pruning_monotonic:
  "r1 < r2 \<Longrightarrow>
     set (zeroed (after_rounds tr a r1 m)) \<subseteq> set (zeroed (after_rounds tr a r2 m))
     \<and> (\<forall>(j, i) \<in> set (zeroed (after_rounds tr a r1 m)).
          i < length (weights (after_rounds tr a r2 m ! j)) \<longrightarrow>
            effective (after_rounds tr a r2 m ! j) ! i = 0)"
proof -
  assume "r1 < r2"
  then have sub: "set (zeroed (after_rounds tr a r1 m)) \<subseteq> set (zeroed (after_rounds tr a r2 m))"
    using rounds_shrink [of r1 r2 tr a m] shrink_zeroed by simp
  then show ?thesis using zeroed_effective by blast
qed

theorem pruning_monotonic_witness:
  "(1::nat) < 2
   \<and> zeroed (after_rounds (trained small_world) half_pruning 1 three_layers)
       = [(0, 1), (0, 2), (1, 0), (2, 0)]
   \<and> zeroed (after_rounds (trained small_world) half_pruning 2 three_layers)
       = [(0, 0), (0, 1), (0, 2), (1, 0), (2, 0)]
   \<and> set (zeroed (after_rounds (trained small_world) half_pruning 1 three_layers))
       \<subseteq> set (zeroed (after_rounds (trained small_world) half_pruning 2 three_layers))"
  using pruning_monotonic [of 1 2 "trained small_world" half_pruning three_layers]
    zeroed_round_1 zeroed_round_2
  by simp

subsection \<open>The validation options\<close>

text \<open>
  C7, as the code has it. \<^verbatim>\<open>val_opt\<close> is \<^verbatim>\<open>train_opt\<close> but for three entries:
  \<^verbatim>\<open>blur_sig\<close> and \<^verbatim>\<open>jpg_qual\<close> hold one value each, the midpoint of the range
  that \<^verbatim>\<open>train_opt\<close> gives (3/2 and 65), and \<^verbatim>\<open>jpg_method\<close> holds pil alone.
  The probabilities \<^verbatim>\<open>blur_prob\<close> and \<^verbatim>\<open>jpg_prob\<close> are those of training, 1/10.
  So under \<^verbatim>\<open>val_opt\<close> the parameters of every perturbation are fixed, and the only
  thing still drawn for a sample is whether it is blurred and whether it is re-encoded.
\<close>

theorem validation_options:
  "val_opt = train_opt\<lparr>blur_sig := [3 / 2], jpg_method := [''pil''], jpg_qual := [65]\<rparr>
   \<and> blur_sig val_opt = [(hd (blur_sig train_opt) + last (blur_sig train_opt)) / 2]
   \<and> jpg_qual val_opt = [(hd (jpg_qual train_opt) + last (jpg_qual train_opt)) div 2]
   \<and> blur_prob val_opt = 1 / 10 \<and> jpg_prob val_opt = 1 / 10
   \<and> augment val_opt d =
       Some ([Resize 256 ''bilinear'']
             @ (if u_blur d < 1 / 10 then [Blur (3 / 2)] else [])
             @ (if u_jpg d < 1 / 10 then [Jpeg ''pil'' 65] else []))"
  by (simp add: val_opt_def train_opt_def py_int_def augment_def pick_one_def range_point_def)

text \<open>
  C7, as the claim states it, fails: the validation transform is not the same for every
  sample. A sample whose draw falls under \<^verbatim>\<open>blur_prob\<close> is blurred, another is not.
\<close>

theorem validation_not_deterministic:
  "\<not> (\<forall>d d'. augment val_opt d = augment val_opt d')"
proof
  assume "\<forall>d d'. augment val_opt d = augment val_opt d'"
  then have "augment val_opt \<lparr>u_interp = 0, u_blur = 0, u_sig = 0, u_jpg = 1 / 2, u_method = 0, u_qual = 0\<rparr>
      = augment val_opt \<lparr>u_interp = 0, u_blur = 1 / 2, u_sig = 0, u_jpg = 1 / 2, u_method = 0, u_qual = 0\<rparr>"
    by blast
  then show False
    by (simp add: val_opt_def py_int_def augment_def pick_one_def range_point_def)
qed

end
